theory Spec2Isabelle
  imports Complex_Main
begin

section \<open>Console output and results of a call\<close>

text \<open>
  Both scripts narrate every operation with \<^verbatim>\<open>print\<close>. A printed line is kept as the
  text of its f-string, each interpolation written \<^verbatim>\<open>{}\<close>, together with the values
  interpolated, in order. The pictograph that opens most lines is not ASCII and is left
  out; an arrow inside a line is written \<^verbatim>\<open>->\<close>. \<^verbatim>\<open>time.sleep\<close> only paces the
  narration and has no counterpart here.

  A method call yields its return value, the lines it printed and the object after the
  call. A method without a \<^verbatim>\<open>return\<close> statement returns \<^verbatim>\<open>None\<close>, the unit value here.
  None of the methods embedded below contains a \<^verbatim>\<open>raise\<close>, and on the integers,
  strings and booleans they are given no operation of theirs can fail, so no result has
  an error branch.
\<close>

datatype pyval = Str string | Num int | Flt real | Bool bool

datatype line = Print string "pyval list"

record ('r, 's) result =
  ret :: 'r
  out :: "line list"
  post :: 's

definition map_post :: "('s \<Rightarrow> 't) \<Rightarrow> ('r, 's) result \<Rightarrow> ('r, 't) result" where
  "map_post f res = \<lparr>ret = ret res, out = out res, post = f (post res)\<rparr>"

text \<open>
  \<^verbatim>\<open>random.choice(seq)\<close> returns the element of \<^verbatim>\<open>seq\<close> at a random index below its
  length. The random draw \<open>r\<close> is a parameter of every function that makes one.
\<close>

definition random_choice :: "nat \<Rightarrow> 'a list \<Rightarrow> 'a" where
  "random_choice r seq = seq ! (r mod length seq)"

section \<open>polymorphism.py: the vehicles\<close>

subsection \<open>Vehicle\<close>

record vehicle =
  name :: string
  max_speed :: int
  fuel_type :: string
  capacity :: int
  current_speed :: int
  is_moving :: bool
  fuel_level :: int
  distance_traveled :: int

definition Vehicle_init :: "string \<Rightarrow> int \<Rightarrow> string \<Rightarrow> int \<Rightarrow> vehicle" where
  "Vehicle_init name' max_speed' fuel_type' capacity' =
     \<lparr>name = name', max_speed = max_speed', fuel_type = fuel_type', capacity = capacity',
      current_speed = 0, is_moving = False, fuel_level = 100, distance_traveled = 0\<rparr>"

text \<open>\<^verbatim>\<open>Vehicle.accelerate\<close> is inherited unchanged by every subclass, hence the record scheme.\<close>

definition accelerate :: "int \<Rightarrow> 'a vehicle_scheme \<Rightarrow> (unit, 'a vehicle_scheme) result" where
  "accelerate speed_increase self =
     (if is_moving self then
        let old_speed = current_speed self;
            self1 = self\<lparr>current_speed := min (max_speed self) (current_speed self + speed_increase)\<rparr>
        in \<lparr>ret = (),
            out = [Print ''{} accelerated: {} -> {} km/h''
                     [Str (vehicle.name self1), Num old_speed, Num (current_speed self1)]],
            post = self1\<rparr>
      else
        \<lparr>ret = (),
         out = [Print ''{} is not moving. Call move() first!'' [Str (vehicle.name self)]],
         post = self\<rparr>)"

subsection \<open>Car\<close>

record car = vehicle +
  gear :: int
  doors :: int

text \<open>\<^verbatim>\<open>Car(name, max_speed=180, capacity=5)\<close>\<close>

definition Car_init :: "string \<Rightarrow> int \<Rightarrow> int \<Rightarrow> car" where
  "Car_init name' max_speed' capacity' =
     vehicle.extend (Vehicle_init name' max_speed' ''Gasoline'' capacity') (car.fields 1 4)"

definition Car_make_sound :: "nat \<Rightarrow> car \<Rightarrow> line" where
  "Car_make_sound r self =
     Print ''{}'' [Str (random_choice r [''Vroom vroom!'', ''Beep beep!'', ''Engine purring...''])]"

definition Car_move :: "nat \<Rightarrow> car \<Rightarrow> (unit, car) result" where
  "Car_move r self =
     (if \<not> is_moving self then
        let self1 = self\<lparr>is_moving := True\<rparr>;
            self2 = self1\<lparr>current_speed := 30\<rparr>
        in \<lparr>ret = (),
            out = [Print ''{} is driving on the road at {} km/h''
                     [Str (vehicle.name self2), Num (current_speed self2)],
                   Car_make_sound r self2],
            post = self2\<rparr>
      else
        \<lparr>ret = (), out = [Print ''{} is already driving!'' [Str (vehicle.name self)]],
         post = self\<rparr>)"

definition Car_stop :: "car \<Rightarrow> (unit, car) result" where
  "Car_stop self =
     (if is_moving self then
        let self1 = self\<lparr>current_speed := 0\<rparr>;
            self2 = self1\<lparr>is_moving := False\<rparr>
        in \<lparr>ret = (),
            out = [Print ''{} is braking and coming to a stop...'' [Str (vehicle.name self)],
                   Print ''{} has stopped and parked.'' [Str (vehicle.name self2)]],
            post = self2\<rparr>
      else
        \<lparr>ret = (), out = [Print ''{} is already stopped!'' [Str (vehicle.name self)]],
         post = self\<rparr>)"

subsection \<open>Plane\<close>

record plane = vehicle +
  altitude :: int
  is_airborne :: bool

text \<open>\<^verbatim>\<open>Plane(name, max_speed=900, capacity=200)\<close>\<close>

definition Plane_init :: "string \<Rightarrow> int \<Rightarrow> int \<Rightarrow> plane" where
  "Plane_init name' max_speed' capacity' =
     vehicle.extend (Vehicle_init name' max_speed' ''Jet Fuel'' capacity') (plane.fields 0 False)"

definition Plane_make_sound :: "nat \<Rightarrow> plane \<Rightarrow> line" where
  "Plane_make_sound r self =
     Print ''{}''
       [Str (random_choice r [''WHOOOOSH!'', ''Jet engines roaring!'', ''Turbulence rumbling...''])]"

definition Plane_move :: "nat \<Rightarrow> plane \<Rightarrow> (unit, plane) result" where
  "Plane_move r self =
     (if \<not> is_moving self then
        let self1 = self\<lparr>is_moving := True\<rparr>;
            self2 = self1\<lparr>is_airborne := True\<rparr>;
            self3 = self2\<lparr>current_speed := 250\<rparr>;
            self4 = self3\<lparr>altitude := 1000\<rparr>
        in \<lparr>ret = (),
            out = [Print ''{} is taxiing to the runway...'' [Str (vehicle.name self)],
                   Print ''{} is taking off...'' [Str (vehicle.name self)],
                   Print ''{} is flying at {} km/h, altitude {}m''
                     [Str (vehicle.name self4), Num (current_speed self4), Num (altitude self4)],
                   Plane_make_sound r self4],
            post = self4\<rparr>
      else
        \<lparr>ret = (), out = [Print ''{} is already flying!'' [Str (vehicle.name self)]],
         post = self\<rparr>)"

definition Plane_stop :: "plane \<Rightarrow> (unit, plane) result" where
  "Plane_stop self =
     (if is_moving self then
        let self1 = self\<lparr>altitude := 0\<rparr>;
            self2 = self1\<lparr>current_speed := 0\<rparr>;
            self3 = self2\<lparr>is_moving := False\<rparr>;
            self4 = self3\<lparr>is_airborne := False\<rparr>
        in \<lparr>ret = (),
            out = [Print ''{} is beginning descent...'' [Str (vehicle.name self)],
                   Print ''{} is landing on runway...'' [Str (vehicle.name self1)],
                   Print ''{} has landed and is at the gate.'' [Str (vehicle.name self4)]],
            post = self4\<rparr>
      else
        \<lparr>ret = (), out = [Print ''{} is already on the ground!'' [Str (vehicle.name self)]],
         post = self\<rparr>)"

subsection \<open>Boat\<close>

record boat = vehicle +
  anchor_down :: bool

text \<open>\<^verbatim>\<open>Boat(name, max_speed=60, capacity=50)\<close>\<close>

definition Boat_init :: "string \<Rightarrow> int \<Rightarrow> int \<Rightarrow> boat" where
  "Boat_init name' max_speed' capacity' =
     vehicle.extend (Vehicle_init name' max_speed' ''Diesel'' capacity') (boat.fields True)"

definition Boat_make_sound :: "nat \<Rightarrow> boat \<Rightarrow> line" where
  "Boat_make_sound r self =
     Print ''{}''
       [Str (random_choice r [''Splash splash!'', ''Foghorn: HOOOONK!'', ''Waves lapping...''])]"

definition Boat_move :: "nat \<Rightarrow> boat \<Rightarrow> (unit, boat) result" where
  "Boat_move r self =
     (if \<not> is_moving self then
        let raising = (if anchor_down self
                       then [Print ''Raising anchor for {}...'' [Str (vehicle.name self)]]
                       else []);
            self1 = (if anchor_down self then self\<lparr>anchor_down := False\<rparr> else self);
            self2 = self1\<lparr>is_moving := True\<rparr>;
            self3 = self2\<lparr>current_speed := 25\<rparr>
        in \<lparr>ret = (),
            out = raising @
                  [Print ''{} is sailing across the water...'' [Str (vehicle.name self1)],
                   Print ''{} is cruising at {} km/h''
                     [Str (vehicle.name self3), Num (current_speed self3)],
                   Boat_make_sound r self3],
            post = self3\<rparr>
      else
        \<lparr>ret = (), out = [Print ''{} is already sailing!'' [Str (vehicle.name self)]],
         post = self\<rparr>)"

definition Boat_stop :: "boat \<Rightarrow> (unit, boat) result" where
  "Boat_stop self =
     (if is_moving self then
        let self1 = self\<lparr>current_speed := 0\<rparr>;
            self2 = self1\<lparr>is_moving := False\<rparr>;
            self3 = self2\<lparr>anchor_down := True\<rparr>
        in \<lparr>ret = (),
            out = [Print ''{} is slowing down...'' [Str (vehicle.name self)],
                   Print ''Dropping anchor for {}...'' [Str (vehicle.name self2)],
                   Print ''{} is anchored at port.'' [Str (vehicle.name self3)]],
            post = self3\<rparr>
      else
        \<lparr>ret = (), out = [Print ''{} is already anchored!'' [Str (vehicle.name self)]],
         post = self\<rparr>)"

subsection \<open>Bicycle\<close>

record bicycle = vehicle +
  pedaling :: bool
  gear :: int

text \<open>\<^verbatim>\<open>Bicycle(name, max_speed=40, capacity=2)\<close>\<close>

definition Bicycle_init :: "string \<Rightarrow> int \<Rightarrow> int \<Rightarrow> bicycle" where
  "Bicycle_init name' max_speed' capacity' =
     vehicle.extend (Vehicle_init name' max_speed' ''Human Power'' capacity')
       (bicycle.fields False 1)"

definition Bicycle_make_sound :: "nat \<Rightarrow> bicycle \<Rightarrow> line" where
  "Bicycle_make_sound r self =
     Print ''{}'' [Str (random_choice r [''Ring ring!'', ''Whoosh of wind!'', ''Chain clicking...''])]"

definition Bicycle_move :: "nat \<Rightarrow> bicycle \<Rightarrow> (unit, bicycle) result" where
  "Bicycle_move r self =
     (if \<not> is_moving self then
        let self1 = self\<lparr>is_moving := True\<rparr>;
            self2 = self1\<lparr>pedaling := True\<rparr>;
            self3 = self2\<lparr>current_speed := 15\<rparr>
        in \<lparr>ret = (),
            out = [Print ''Starting to pedal {}...'' [Str (vehicle.name self)],
                   Print ''{} is cycling at {} km/h''
                     [Str (vehicle.name self3), Num (current_speed self3)],
                   Bicycle_make_sound r self3],
            post = self3\<rparr>
      else
        \<lparr>ret = (), out = [Print ''{} is already cycling!'' [Str (vehicle.name self)]],
         post = self\<rparr>)"

definition Bicycle_stop :: "bicycle \<Rightarrow> (unit, bicycle) result" where
  "Bicycle_stop self =
     (if is_moving self then
        let self1 = self\<lparr>current_speed := 0\<rparr>;
            self2 = self1\<lparr>is_moving := False\<rparr>;
            self3 = self2\<lparr>pedaling := False\<rparr>
        in \<lparr>ret = (),
            out = [Print ''Applying brakes to {}...'' [Str (vehicle.name self)],
                   Print ''{} has stopped.'' [Str (vehicle.name self3)]],
            post = self3\<rparr>
      else
        \<lparr>ret = (), out = [Print ''{} is already stopped!'' [Str (vehicle.name self)]],
         post = self\<rparr>)"

subsection \<open>Train\<close>

record train = vehicle +
  cars :: int
  station :: string

text \<open>\<^verbatim>\<open>Train(name, max_speed=300, capacity=500)\<close>\<close>

definition Train_init :: "string \<Rightarrow> int \<Rightarrow> int \<Rightarrow> train" where
  "Train_init name' max_speed' capacity' =
     vehicle.extend (Vehicle_init name' max_speed' ''Electric'' capacity')
       (train.fields 8 ''Central Station'')"

definition Train_make_sound :: "nat \<Rightarrow> train \<Rightarrow> line" where
  "Train_make_sound r self =
     Print ''{}''
       [Str (random_choice r [''Choo choo!'', ''TOOT TOOT!'', ''Clackety-clack on tracks...''])]"

definition Train_move :: "nat \<Rightarrow> train \<Rightarrow> (unit, train) result" where
  "Train_move r self =
     (if \<not> is_moving self then
        let self1 = self\<lparr>is_moving := True\<rparr>;
            self2 = self1\<lparr>current_speed := 80\<rparr>
        in \<lparr>ret = (),
            out = [Print ''All aboard! {} is departing from {}...''
                     [Str (vehicle.name self), Str (station self)],
                   Print ''{} is accelerating on the tracks...'' [Str (vehicle.name self)],
                   Print ''{} is traveling at {} km/h on the railway''
                     [Str (vehicle.name self2), Num (current_speed self2)],
                   Train_make_sound r self2],
            post = self2\<rparr>
      else
        \<lparr>ret = (), out = [Print ''{} is already traveling!'' [Str (vehicle.name self)]],
         post = self\<rparr>)"

definition Train_stop :: "train \<Rightarrow> (unit, train) result" where
  "Train_stop self =
     (if is_moving self then
        let self1 = self\<lparr>current_speed := 0\<rparr>;
            self2 = self1\<lparr>is_moving := False\<rparr>
        in \<lparr>ret = (),
            out = [Print ''{} is approaching the next station...'' [Str (vehicle.name self)],
                   Print ''Brakes engaging for {}...'' [Str (vehicle.name self)],
                   Print ''{} has arrived at the station. Doors opening...''
                     [Str (vehicle.name self2)]],
            post = self2\<rparr>
      else
        \<lparr>ret = (), out = [Print ''{} is already at the station!'' [Str (vehicle.name self)]],
         post = self\<rparr>)"

subsection \<open>A vehicle of any class, and method dispatch\<close>

text \<open>
  A variable of the demonstration holds an object of any of the five classes;
  \<^verbatim>\<open>v.move()\<close>, \<^verbatim>\<open>v.stop()\<close> and \<^verbatim>\<open>v.accelerate(d)\<close> run the method of the object's
  class. \<open>base\<close> reads the fields that \<^verbatim>\<open>Vehicle.__init__\<close> declares.
\<close>

datatype any_vehicle =
  VCar car | VPlane plane | VBoat boat | VBicycle bicycle | VTrain train

fun base :: "any_vehicle \<Rightarrow> vehicle" where
  "base (VCar c) = vehicle.truncate c"
| "base (VPlane p) = vehicle.truncate p"
| "base (VBoat b) = vehicle.truncate b"
| "base (VBicycle b) = vehicle.truncate b"
| "base (VTrain t) = vehicle.truncate t"

fun move :: "nat \<Rightarrow> any_vehicle \<Rightarrow> (unit, any_vehicle) result" where
  "move r (VCar c) = map_post VCar (Car_move r c)"
| "move r (VPlane p) = map_post VPlane (Plane_move r p)"
| "move r (VBoat b) = map_post VBoat (Boat_move r b)"
| "move r (VBicycle b) = map_post VBicycle (Bicycle_move r b)"
| "move r (VTrain t) = map_post VTrain (Train_move r t)"

fun stop :: "any_vehicle \<Rightarrow> (unit, any_vehicle) result" where
  "stop (VCar c) = map_post VCar (Car_stop c)"
| "stop (VPlane p) = map_post VPlane (Plane_stop p)"
| "stop (VBoat b) = map_post VBoat (Boat_stop b)"
| "stop (VBicycle b) = map_post VBicycle (Bicycle_stop b)"
| "stop (VTrain t) = map_post VTrain (Train_stop t)"

fun call_accelerate :: "int \<Rightarrow> any_vehicle \<Rightarrow> (unit, any_vehicle) result" where
  "call_accelerate d (VCar c) = map_post VCar (accelerate d c)"
| "call_accelerate d (VPlane p) = map_post VPlane (accelerate d p)"
| "call_accelerate d (VBoat b) = map_post VBoat (accelerate d b)"
| "call_accelerate d (VBicycle b) = map_post VBicycle (accelerate d b)"
| "call_accelerate d (VTrain t) = map_post VTrain (accelerate d t)"

text \<open>
  The starting speed the specification documents for each variant, and the invariant it
  states for a vehicle: the speed never exceeds the maximum, and a vehicle that is not
  moving has speed 0.
\<close>

fun documented_starting_speed :: "any_vehicle \<Rightarrow> int" where
  "documented_starting_speed (VCar _) = 30"
| "documented_starting_speed (VPlane _) = 250"
| "documented_starting_speed (VBoat _) = 25"
| "documented_starting_speed (VBicycle _) = 15"
| "documented_starting_speed (VTrain _) = 80"

definition vehicle_invariant :: "any_vehicle \<Rightarrow> bool" where
  "vehicle_invariant v =
     (current_speed (base v) \<le> max_speed (base v) \<and>
      (is_moving (base v) \<or> current_speed (base v) = 0))"

text \<open>
  Calling a class constructs an object of it; the demonstration then calls
  \<^verbatim>\<open>move\<close>, \<^verbatim>\<open>stop\<close> and \<^verbatim>\<open>accelerate\<close> on it in some order.
\<close>

datatype vehicle_class = Car | Plane | Boat | Bicycle | Train

fun new_vehicle :: "vehicle_class \<Rightarrow> string \<Rightarrow> int \<Rightarrow> int \<Rightarrow> any_vehicle" where
  "new_vehicle Car name' max_speed' capacity' = VCar (Car_init name' max_speed' capacity')"
| "new_vehicle Plane name' max_speed' capacity' = VPlane (Plane_init name' max_speed' capacity')"
| "new_vehicle Boat name' max_speed' capacity' = VBoat (Boat_init name' max_speed' capacity')"
| "new_vehicle Bicycle name' max_speed' capacity' =
     VBicycle (Bicycle_init name' max_speed' capacity')"
| "new_vehicle Train name' max_speed' capacity' = VTrain (Train_init name' max_speed' capacity')"

datatype vehicle_call = Move nat | Stop | Accelerate int

fun do_call :: "vehicle_call \<Rightarrow> any_vehicle \<Rightarrow> (unit, any_vehicle) result" where
  "do_call (Move r) v = move r v"
| "do_call Stop v = stop v"
| "do_call (Accelerate d) v = call_accelerate d v"

fun run_calls :: "vehicle_call list \<Rightarrow> any_vehicle \<Rightarrow> any_vehicle" where
  "run_calls [] v = v"
| "run_calls (c # cs) v = run_calls cs (post (do_call c v))"

section \<open>smartphone.py: the electronic devices\<close>

subsection \<open>Electronics\<close>

text \<open>
  The attributes keep their names without the leading underscores. The class variable
  \<^verbatim>\<open>Electronics.total_devices\<close> is passed to the constructor and returned with the new
  object. The serial number (built from a random draw) and the manufacture date (read
  from the clock) are parameters, as is the name of the class being constructed, which
  the constructor prints.
\<close>

record electronics =
  brand :: string
  model :: string
  price :: real
  warranty_years :: int
  serial_number :: string
  manufacture_date :: string
  is_on :: bool
  power_consumption :: int

definition Electronics_init ::
  "string \<Rightarrow> string \<Rightarrow> string \<Rightarrow> real \<Rightarrow> int \<Rightarrow> string \<Rightarrow> string \<Rightarrow> int
     \<Rightarrow> (unit, int \<times> electronics) result" where
  "Electronics_init class_name brand' model' price' warranty_years' serial today total_devices =
     \<lparr>ret = (),
      out = [Print ''New {} created: {} {}'' [Str class_name, Str brand', Str model']],
      post = (total_devices + 1,
              \<lparr>brand = brand', model = model', price = price',
               warranty_years = warranty_years', serial_number = serial,
               manufacture_date = today, is_on = False, power_consumption = 0\<rparr>)\<rparr>"

text \<open>
  \<^verbatim>\<open>_get_base_power_consumption\<close> is overridden in both subclasses; \<open>power_on\<close> takes
  the value the object's own class returns.
\<close>

definition Electronics_get_base_power_consumption :: int where
  "Electronics_get_base_power_consumption = 50"

definition power_on ::
  "int \<Rightarrow> 'a electronics_scheme \<Rightarrow> (unit, 'a electronics_scheme) result" where
  "power_on base_power_consumption self =
     (if \<not> is_on self then
        \<lparr>ret = (), out = [Print ''{} {} is now ON'' [Str (brand self), Str (model self)]],
         post = self\<lparr>is_on := True, power_consumption := base_power_consumption\<rparr>\<rparr>
      else
        \<lparr>ret = (), out = [Print ''{} {} is already ON'' [Str (brand self), Str (model self)]],
         post = self\<rparr>)"

definition power_off :: "'a electronics_scheme \<Rightarrow> (unit, 'a electronics_scheme) result" where
  "power_off self =
     (if is_on self then
        \<lparr>ret = (), out = [Print ''{} {} is now OFF'' [Str (brand self), Str (model self)]],
         post = self\<lparr>is_on := False, power_consumption := 0\<rparr>\<rparr>
      else
        \<lparr>ret = (), out = [Print ''{} {} is already OFF'' [Str (brand self), Str (model self)]],
         post = self\<rparr>)"

definition get_device_info :: "'a electronics_scheme \<Rightarrow> (string \<rightharpoonup> pyval)" where
  "get_device_info self =
     (let status = (if is_on self then ''ON'' else ''OFF'')
      in map_of
           [(''brand'', Str (brand self)),
            (''model'', Str (model self)),
            (''price'', Flt (price self)),
            (''serial_number'', Str (serial_number self)),
            (''manufacture_date'', Str (manufacture_date self)),
            (''warranty_years'', Num (warranty_years self)),
            (''status'', Str status),
            (''power_consumption'', Num (power_consumption self))])"

definition is_under_warranty :: "'a electronics_scheme \<Rightarrow> bool" where
  "is_under_warranty self = True"

subsection \<open>Smartphone\<close>

text \<open>A contact is the dictionary \<^verbatim>\<open>{"name": name, "phone": phone_number}\<close>.\<close>

record contact =
  name :: string
  phone :: string

record smartphone = electronics +
  os :: string
  storage_gb :: int
  camera_mp :: int
  battery_mah :: int
  contacts :: "contact list"
  apps_installed :: "string list"
  battery_level :: int
  screen_locked :: bool

text \<open>
  \<^verbatim>\<open>Smartphone(brand, model, price, os, storage_gb, camera_mp, battery_mah, warranty_years=2)\<close>
\<close>

definition Smartphone_init ::
  "string \<Rightarrow> string \<Rightarrow> real \<Rightarrow> string \<Rightarrow> int \<Rightarrow> int \<Rightarrow> int \<Rightarrow> int \<Rightarrow> string \<Rightarrow> string \<Rightarrow> int
     \<Rightarrow> (unit, int \<times> smartphone) result" where
  "Smartphone_init brand' model' price' os' storage_gb' camera_mp' battery_mah' warranty_years'
       serial today total_devices =
     (let super = Electronics_init ''Smartphone'' brand' model' price' warranty_years'
                    serial today total_devices
      in \<lparr>ret = (),
          out = out super @
                [Print ''Smartphone initialized with {}GB storage and {}MP camera''
                   [Num storage_gb', Num camera_mp']],
          post = (fst (post super),
                  electronics.extend (snd (post super))
                    (smartphone.fields os' storage_gb' camera_mp' battery_mah'
                       [] [''Phone'', ''Messages'', ''Settings''] 100 True))\<rparr>)"

definition Smartphone_get_base_power_consumption :: int where
  "Smartphone_get_base_power_consumption = 15"

text \<open>\<^verbatim>\<open>unlock_screen(passcode="1234")\<close>\<close>

definition unlock_screen :: "string \<Rightarrow> smartphone \<Rightarrow> (bool, smartphone) result" where
  "unlock_screen passcode self =
     (if screen_locked self then
        if passcode = ''1234'' then
          \<lparr>ret = True, out = [Print ''Screen unlocked successfully!'' []],
           post = self\<lparr>screen_locked := False\<rparr>\<rparr>
        else
          \<lparr>ret = False, out = [Print ''Incorrect passcode!'' []], post = self\<rparr>
      else
        \<lparr>ret = True, out = [Print ''Screen is already unlocked'' []], post = self\<rparr>)"

definition lock_screen :: "smartphone \<Rightarrow> (unit, smartphone) result" where
  "lock_screen self =
     (if \<not> screen_locked self then
        \<lparr>ret = (), out = [Print ''Screen locked'' []], post = self\<lparr>screen_locked := True\<rparr>\<rparr>
      else
        \<lparr>ret = (), out = [Print ''Screen is already locked'' []], post = self\<rparr>)"

definition add_contact :: "string \<Rightarrow> string \<Rightarrow> smartphone \<Rightarrow> (bool, smartphone) result" where
  "add_contact name' phone_number self =
     (if \<not> screen_locked self then
        let contact = \<lparr>name = name', phone = phone_number\<rparr>
        in \<lparr>ret = True,
            out = [Print ''Contact added: {} - {}'' [Str name', Str phone_number]],
            post = self\<lparr>contacts := contacts self @ [contact]\<rparr>\<rparr>
      else
        \<lparr>ret = False, out = [Print ''Please unlock screen first!'' []], post = self\<rparr>)"

definition install_app :: "string \<Rightarrow> smartphone \<Rightarrow> (bool, smartphone) result" where
  "install_app app_name self =
     (if \<not> screen_locked self then
        if app_name \<notin> set (apps_installed self) then
          if int (length (apps_installed self)) < smartphone.storage_gb self div 4 then
            let self1 = self\<lparr>apps_installed := apps_installed self @ [app_name]\<rparr>;
                self2 = self1\<lparr>battery_level := battery_level self1 - 2\<rparr>
            in \<lparr>ret = True, out = [Print ''App installed: {}'' [Str app_name]], post = self2\<rparr>
          else
            \<lparr>ret = False, out = [Print ''Not enough storage space!'' []], post = self\<rparr>
        else
          \<lparr>ret = False, out = [Print ''{} is already installed'' [Str app_name]], post = self\<rparr>
      else
        \<lparr>ret = False, out = [Print ''Please unlock screen first!'' []], post = self\<rparr>)"

text \<open>
  The file name \<^verbatim>\<open>take_photo\<close> returns ends in a time stamp read from the clock, the
  parameter \<open>stamp\<close>.
\<close>

definition take_photo :: "string \<Rightarrow> smartphone \<Rightarrow> (string option, smartphone) result" where
  "take_photo stamp self =
     (if \<not> screen_locked self then
        if battery_level self > 5 then
          let self1 = self\<lparr>battery_level := battery_level self - 3\<rparr>;
              photo_quality = (if camera_mp self1 \<ge> 12 then ''HD'' else ''Standard'')
          in \<lparr>ret = Some (photo_quality @ ''_photo_'' @ stamp @ ''.jpg''),
              out = [Print ''Photo taken! Quality: {} ({}MP)''
                       [Str photo_quality, Num (camera_mp self1)]],
              post = self1\<rparr>
        else
          \<lparr>ret = None, out = [Print ''Battery too low to take photo!'' []], post = self\<rparr>
      else
        \<lparr>ret = None, out = [Print ''Please unlock screen first!'' []], post = self\<rparr>)"

text \<open>
  \<^verbatim>\<open>str.lower\<close>, on ASCII: the letters A to Z are mapped to a to z and every other byte
  is kept. (Python also lowers letters outside ASCII; no property below depends on which
  contact names match.)
\<close>

definition lower_char :: "char \<Rightarrow> char" where
  "lower_char c =
     (let n = (of_char c :: nat) in if 65 \<le> n \<and> n \<le> 90 then char_of (n + 32) else c)"

definition lower :: "string \<Rightarrow> string" where
  "lower s = map lower_char s"

definition make_call :: "string \<Rightarrow> smartphone \<Rightarrow> (bool, smartphone) result" where
  "make_call contact_name self =
     (if \<not> screen_locked self then
        case find (\<lambda>c. lower (contact.name c) = lower contact_name) (contacts self) of
          Some contact \<Rightarrow>
            if battery_level self > 10 then
              \<lparr>ret = True,
               out = [Print ''Calling {} at {}...''
                        [Str (contact.name contact), Str (phone contact)]],
               post = self\<lparr>battery_level := battery_level self - 5\<rparr>\<rparr>
            else
              \<lparr>ret = False, out = [Print ''Battery too low to make call!'' []], post = self\<rparr>
        | None \<Rightarrow>
            \<lparr>ret = False, out = [Print ''Contact '{}' not found!'' [Str contact_name]],
             post = self\<rparr>
      else
        \<lparr>ret = False, out = [Print ''Please unlock screen first!'' []], post = self\<rparr>)"

text \<open>
  \<^verbatim>\<open>battery_status\<close> is one of two pictographs, named here by what they show.
\<close>

definition check_battery :: "smartphone \<Rightarrow> (int, smartphone) result" where
  "check_battery self =
     (let battery_status = (if battery_level self > 20 then ''battery'' else ''low battery'')
      in \<lparr>ret = battery_level self,
          out = [Print ''{} Battery Level: {}%'' [Str battery_status, Num (battery_level self)]],
          post = self\<rparr>)"

text \<open>\<^verbatim>\<open>charge_battery(amount=50)\<close>\<close>

definition charge_battery :: "int \<Rightarrow> smartphone \<Rightarrow> (unit, smartphone) result" where
  "charge_battery amount self =
     (let old_level = battery_level self;
          self1 = self\<lparr>battery_level := min 100 (battery_level self + amount)\<rparr>;
          gained = battery_level self1 - old_level
      in \<lparr>ret = (),
          out = [Print ''Charged! Battery: {}% -> {}% (+{}%)''
                   [Num old_level, Num (battery_level self1), Num gained]],
          post = self1\<rparr>)"

definition get_contacts :: "smartphone \<Rightarrow> (contact list, smartphone) result" where
  "get_contacts self =
     (if \<not> screen_locked self then
        \<lparr>ret = contacts self, out = [], post = self\<rparr>
      else
        \<lparr>ret = [], out = [Print ''Please unlock screen first!'' []], post = self\<rparr>)"

definition get_installed_apps :: "smartphone \<Rightarrow> (string list, smartphone) result" where
  "get_installed_apps self =
     (if \<not> screen_locked self then
        \<lparr>ret = apps_installed self, out = [], post = self\<rparr>
      else
        \<lparr>ret = [], out = [Print ''Please unlock screen first!'' []], post = self\<rparr>)"

text \<open>\<^verbatim>\<open>{**base_info, **smartphone_info}\<close>: the second dictionary wins on a shared key.\<close>

definition get_smartphone_info :: "smartphone \<Rightarrow> (string \<rightharpoonup> pyval)" where
  "get_smartphone_info self =
     (let base_info = get_device_info self;
          smartphone_info = map_of
            [(''os'', Str (smartphone.os self)),
             (''storage_gb'', Num (smartphone.storage_gb self)),
             (''camera_mp'', Num (camera_mp self)),
             (''battery_mah'', Num (battery_mah self)),
             (''battery_level'', Num (battery_level self)),
             (''screen_locked'', Bool (screen_locked self)),
             (''contacts_count'', Num (int (length (contacts self)))),
             (''apps_installed'', Num (int (length (apps_installed self))))]
      in base_info ++ smartphone_info)"

subsection \<open>Laptop\<close>

record laptop = electronics +
  os :: string
  ram_gb :: int
  storage_gb :: int
  screen_size :: string
  programs_running :: "string list"
  cpu_usage :: int

text \<open>
  \<^verbatim>\<open>Laptop(brand, model, price, os, ram_gb, storage_gb, screen_size, warranty_years=3)\<close>
\<close>

definition Laptop_init ::
  "string \<Rightarrow> string \<Rightarrow> real \<Rightarrow> string \<Rightarrow> int \<Rightarrow> int \<Rightarrow> string \<Rightarrow> int \<Rightarrow> string \<Rightarrow> string \<Rightarrow> int
     \<Rightarrow> (unit, int \<times> laptop) result" where
  "Laptop_init brand' model' price' os' ram_gb' storage_gb' screen_size' warranty_years'
       serial today total_devices =
     (let super = Electronics_init ''Laptop'' brand' model' price' warranty_years'
                    serial today total_devices
      in \<lparr>ret = (),
          out = out super,
          post = (fst (post super),
                  electronics.extend (snd (post super))
                    (laptop.fields os' ram_gb' storage_gb' screen_size' [] 0))\<rparr>)"

definition Laptop_get_base_power_consumption :: int where
  "Laptop_get_base_power_consumption = 65"

text \<open>
  \<open>r\<close> is the value \<^verbatim>\<open>random.randint(5, 15)\<close> draws. \<^verbatim>\<open>list.remove\<close> deletes the
  first occurrence.
\<close>

definition run_program :: "string \<Rightarrow> int \<Rightarrow> laptop \<Rightarrow> (unit, laptop) result" where
  "run_program program_name r self =
     (if program_name \<notin> set (programs_running self) then
        let self1 = self\<lparr>programs_running := programs_running self @ [program_name]\<rparr>;
            self2 = self1\<lparr>cpu_usage := cpu_usage self1 + r\<rparr>
        in \<lparr>ret = (),
            out = [Print ''Running: {} (CPU: {}%)'' [Str program_name, Num (cpu_usage self2)]],
            post = self2\<rparr>
      else
        \<lparr>ret = (), out = [Print ''{} is already running'' [Str program_name]], post = self\<rparr>)"

definition close_program :: "string \<Rightarrow> int \<Rightarrow> laptop \<Rightarrow> (unit, laptop) result" where
  "close_program program_name r self =
     (if program_name \<in> set (programs_running self) then
        let self1 = self\<lparr>programs_running := remove1 program_name (programs_running self)\<rparr>;
            self2 = self1\<lparr>cpu_usage := max 0 (cpu_usage self1 - r)\<rparr>
        in \<lparr>ret = (),
            out = [Print ''Closed: {} (CPU: {}%)'' [Str program_name, Num (cpu_usage self2)]],
            post = self2\<rparr>
      else
        \<lparr>ret = (), out = [Print ''{} is not running'' [Str program_name]], post = self\<rparr>)"

definition get_system_info :: "laptop \<Rightarrow> (string \<rightharpoonup> pyval)" where
  "get_system_info self =
     (let base_info = get_device_info self;
          laptop_info = map_of
            [(''os'', Str (laptop.os self)),
             (''ram_gb'', Num (ram_gb self)),
             (''storage_gb'', Num (laptop.storage_gb self)),
             (''screen_size'', Str (screen_size self)),
             (''cpu_usage'', Num (cpu_usage self)),
             (''running_programs'', Num (int (length (programs_running self))))]
      in base_info ++ laptop_info)"

subsection \<open>The process: the class variable and the objects created so far\<close>

text \<open>
  A statement of a driver either constructs an object of one of the three classes or
  calls a method on an object created earlier (the \<open>i\<close>-th, counting from 0). A method
  the object's class does not have is Python's \<^verbatim>\<open>AttributeError\<close>, an object that was
  never created its \<^verbatim>\<open>NameError\<close>. The value a call returns and the lines it prints are
  dropped here; the functions above give them. \<^verbatim>\<open>__str__\<close> and \<^verbatim>\<open>__repr__\<close> only
  format fields and are not embedded.
\<close>

datatype device = An_electronics electronics | A_smartphone smartphone | A_laptop laptop

datatype invocation =
    Power_on | Power_off | Get_device_info | Is_under_warranty
  | Unlock_screen string | Lock_screen | Add_contact string string | Install_app string
  | Take_photo string | Make_call string | Check_battery | Charge_battery int
  | Get_contacts | Get_installed_apps | Get_smartphone_info
  | Run_program string int | Close_program string int | Get_system_info

datatype error = AttributeError | NameError

fun phone_invoke :: "invocation \<Rightarrow> smartphone \<Rightarrow> error + smartphone" where
  "phone_invoke Power_on p = Inr (post (power_on Smartphone_get_base_power_consumption p))"
| "phone_invoke Power_off p = Inr (post (power_off p))"
| "phone_invoke Get_device_info p = Inr p"
| "phone_invoke Is_under_warranty p = Inr p"
| "phone_invoke (Unlock_screen passcode) p = Inr (post (unlock_screen passcode p))"
| "phone_invoke Lock_screen p = Inr (post (lock_screen p))"
| "phone_invoke (Add_contact n ph) p = Inr (post (add_contact n ph p))"
| "phone_invoke (Install_app a) p = Inr (post (install_app a p))"
| "phone_invoke (Take_photo stamp) p = Inr (post (take_photo stamp p))"
| "phone_invoke (Make_call n) p = Inr (post (make_call n p))"
| "phone_invoke Check_battery p = Inr (post (check_battery p))"
| "phone_invoke (Charge_battery amount) p = Inr (post (charge_battery amount p))"
| "phone_invoke Get_contacts p = Inr (post (get_contacts p))"
| "phone_invoke Get_installed_apps p = Inr (post (get_installed_apps p))"
| "phone_invoke Get_smartphone_info p = Inr p"
| "phone_invoke (Run_program _ _) p = Inl AttributeError"
| "phone_invoke (Close_program _ _) p = Inl AttributeError"
| "phone_invoke Get_system_info p = Inl AttributeError"

fun laptop_invoke :: "invocation \<Rightarrow> laptop \<Rightarrow> error + laptop" where
  "laptop_invoke Power_on l = Inr (post (power_on Laptop_get_base_power_consumption l))"
| "laptop_invoke Power_off l = Inr (post (power_off l))"
| "laptop_invoke Get_device_info l = Inr l"
| "laptop_invoke Is_under_warranty l = Inr l"
| "laptop_invoke (Run_program n r) l = Inr (post (run_program n r l))"
| "laptop_invoke (Close_program n r) l = Inr (post (close_program n r l))"
| "laptop_invoke Get_system_info l = Inr l"
| "laptop_invoke _ l = Inl AttributeError"

fun electronics_invoke :: "invocation \<Rightarrow> electronics \<Rightarrow> error + electronics" where
  "electronics_invoke Power_on e = Inr (post (power_on Electronics_get_base_power_consumption e))"
| "electronics_invoke Power_off e = Inr (post (power_off e))"
| "electronics_invoke Get_device_info e = Inr e"
| "electronics_invoke Is_under_warranty e = Inr e"
| "electronics_invoke _ e = Inl AttributeError"

fun invoke :: "invocation \<Rightarrow> device \<Rightarrow> error + device" where
  "invoke m (An_electronics e) = map_sum id An_electronics (electronics_invoke m e)"
| "invoke m (A_smartphone p) = map_sum id A_smartphone (phone_invoke m p)"
| "invoke m (A_laptop l) = map_sum id A_laptop (laptop_invoke m l)"

text \<open>A sequence of calls on one smartphone stops at the first error.\<close>

fun phone_run :: "invocation list \<Rightarrow> smartphone \<Rightarrow> error + smartphone" where
  "phone_run [] p = Inr p"
| "phone_run (m # ms) p =
     (case phone_invoke m p of Inl e \<Rightarrow> Inl e | Inr p' \<Rightarrow> phone_run ms p')"

record process =
  total_devices :: int
  objects :: "device list"

datatype statement =
    New_Electronics string string real int string string
  | New_Smartphone string string real string int int int int string string
  | New_Laptop string string real string int int string int string string
  | Call nat invocation

fun is_construction :: "statement \<Rightarrow> bool" where
  "is_construction (Call _ _) = False"
| "is_construction _ = True"

fun exec :: "statement \<Rightarrow> process \<Rightarrow> error + process" where
  "exec (New_Electronics b m pr w serial today) s =
     (let new = post (Electronics_init ''Electronics'' b m pr w serial today (total_devices s))
      in Inr \<lparr>total_devices = fst new, objects = objects s @ [An_electronics (snd new)]\<rparr>)"
| "exec (New_Smartphone b m pr os' sg mp mah w serial today) s =
     (let new = post (Smartphone_init b m pr os' sg mp mah w serial today (total_devices s))
      in Inr \<lparr>total_devices = fst new, objects = objects s @ [A_smartphone (snd new)]\<rparr>)"
| "exec (New_Laptop b m pr os' ram sg scr w serial today) s =
     (let new = post (Laptop_init b m pr os' ram sg scr w serial today (total_devices s))
      in Inr \<lparr>total_devices = fst new, objects = objects s @ [A_laptop (snd new)]\<rparr>)"
| "exec (Call i m) s =
     (if i < length (objects s) then
        case invoke m (objects s ! i) of
          Inl e \<Rightarrow> Inl e
        | Inr d \<Rightarrow> Inr (s\<lparr>objects := (objects s)[i := d]\<rparr>)
      else Inl NameError)"

text \<open>
  The smartphone \<^verbatim>\<open>demonstrate_classes\<close> constructs, as the first object of the process.
\<close>

definition demo_phone :: smartphone where
  "demo_phone =
     snd (post (Smartphone_init ''TechPro'' ''X15 Pro'' (89999 / 100) ''Android 14'' 256 48 4500 2
                  ''SN123456'' ''2025-01-01'' 0))"

text \<open>A smartphone right after its construction and a successful \<^verbatim>\<open>unlock_screen("1234")\<close>.\<close>

definition fresh_unlocked_phone ::
  "string \<Rightarrow> string \<Rightarrow> real \<Rightarrow> string \<Rightarrow> int \<Rightarrow> int \<Rightarrow> int \<Rightarrow> int \<Rightarrow> string \<Rightarrow> string \<Rightarrow> int
     \<Rightarrow> smartphone" where
  "fresh_unlocked_phone brand' model' price' os' storage_gb' camera_mp' battery_mah'
       warranty_years' serial today count =
     post (unlock_screen ''1234''
       (snd (post (Smartphone_init brand' model' price' os' storage_gb' camera_mp' battery_mah'
                     warranty_years' serial today count))))"

section \<open>Properties of the vehicles\<close>

lemma post_map_post: "post (map_post f res) = f (post res)"
  by (simp add: map_post_def)

lemmas vehicle_method_defs =
  Car_move_def Car_stop_def Plane_move_def Plane_stop_def Boat_move_def Boat_stop_def
  Bicycle_move_def Bicycle_stop_def Train_move_def Train_stop_def accelerate_def

lemmas vehicle_init_defs =
  Vehicle_init_def Car_init_def Plane_init_def Boat_init_def Bicycle_init_def Train_init_def
  vehicle.defs car.defs plane.defs boat.defs bicycle.defs train.defs

subsection \<open>Starting and stopping\<close>

text \<open>
  Claim C5. For every vehicle variant that is stopped, \<^verbatim>\<open>move()\<close> leaves it moving at
  the starting speed of its variant (Car 30, Plane 250, Boat 25, Bicycle 15, Train 80);
  for every variant that is moving, \<^verbatim>\<open>stop()\<close> leaves it stopped at speed 0.
\<close>

theorem move_starts_and_stop_halts:
  "(\<not> is_moving (base v) \<longrightarrow>
      is_moving (base (post (move r v))) \<and>
      current_speed (base (post (move r v))) = documented_starting_speed v) \<and>
   (is_moving (base v) \<longrightarrow>
      \<not> is_moving (base (post (stop v))) \<and> current_speed (base (post (stop v))) = 0)"
  by (cases v) (simp_all add: post_map_post vehicle_method_defs vehicle.defs Let_def)

theorem move_starts_and_stop_halts_witness:
  "\<not> is_moving (base (new_vehicle Car ''Toyota'' 180 5)) \<and>
   is_moving (base (post (move 0 (new_vehicle Car ''Toyota'' 180 5)))) \<and>
   current_speed (base (post (move 0 (new_vehicle Car ''Toyota'' 180 5)))) = 30 \<and>
   is_moving (base (post (move 1 (new_vehicle Boat ''Ferry'' 60 50)))) \<and>
   \<not> is_moving (base (post (stop (post (move 1 (new_vehicle Boat ''Ferry'' 60 50)))))) \<and>
   current_speed (base (post (stop (post (move 1 (new_vehicle Boat ''Ferry'' 60 50)))))) = 0"
  using move_starts_and_stop_halts [of "new_vehicle Car ''Toyota'' 180 5" 0]
        move_starts_and_stop_halts [of "post (move 1 (new_vehicle Boat ''Ferry'' 60 50))"]
  by (simp add: post_map_post vehicle_method_defs vehicle_init_defs Let_def)

subsection \<open>Acceleration\<close>

text \<open>
  Claim C6. For every vehicle and every speed increase \<open>d\<close>: when the vehicle is not
  moving, \<^verbatim>\<open>accelerate(d)\<close> leaves the speed (indeed the whole object) as it was; when
  it is moving, the new speed is the smaller of \<open>max_speed\<close> and the old speed plus
  \<open>d\<close>, and no other field changes. The method is the one of \<^verbatim>\<open>Vehicle\<close> for every
  subclass, so the statement is about any extension of the vehicle record; its last
  part reads it through the dispatch on the five variants.
\<close>

theorem accelerate_clamps_at_max_speed:
  "(\<not> is_moving self \<longrightarrow> post (accelerate d self) = self) \<and>
   (is_moving self \<longrightarrow>
      post (accelerate d self) =
        self\<lparr>current_speed := min (max_speed self) (current_speed self + d)\<rparr>) \<and>
   (\<not> is_moving (base v) \<longrightarrow> post (call_accelerate d v) = v) \<and>
   (is_moving (base v) \<longrightarrow>
      base (post (call_accelerate d v)) =
        (base v)\<lparr>current_speed := min (max_speed (base v)) (current_speed (base v) + d)\<rparr>)"
  by (cases v) (simp_all add: post_map_post accelerate_def vehicle.defs Let_def)

theorem accelerate_clamps_at_max_speed_witness:
  "\<not> is_moving (Car_init ''Toyota'' 180 5) \<and>
   post (accelerate 50 (Car_init ''Toyota'' 180 5)) = Car_init ''Toyota'' 180 5 \<and>
   is_moving (post (Car_move 0 (Car_init ''Toyota'' 180 5))) \<and>
   current_speed (post (accelerate 50 (post (Car_move 0 (Car_init ''Toyota'' 180 5))))) = 80 \<and>
   current_speed (post (accelerate 200 (post (Car_move 0 (Car_init ''Toyota'' 180 5))))) = 180 \<and>
   is_moving (base (post (move 2 (new_vehicle Train ''Express'' 300 500)))) \<and>
   current_speed
     (base (post (call_accelerate 100 (post (move 2 (new_vehicle Train ''Express'' 300 500)))))) =
     180"
  using accelerate_clamps_at_max_speed
          [of "Car_init ''Toyota'' 180 5" 50 "new_vehicle Car ''Toyota'' 180 5"]
        accelerate_clamps_at_max_speed
          [of "post (Car_move 0 (Car_init ''Toyota'' 180 5))" 50
              "post (move 0 (new_vehicle Car ''Toyota'' 180 5))"]
        accelerate_clamps_at_max_speed
          [of "post (Car_move 0 (Car_init ''Toyota'' 180 5))" 200
              "post (move 0 (new_vehicle Car ''Toyota'' 180 5))"]
        accelerate_clamps_at_max_speed
          [of "post (Car_move 0 (Car_init ''Toyota'' 180 5))" 100
              "post (move 2 (new_vehicle Train ''Express'' 300 500))"]
  by (simp add: post_map_post vehicle_method_defs vehicle_init_defs Let_def)

subsection \<open>Redundant calls\<close>

text \<open>
  Claim C7. For every vehicle variant, \<^verbatim>\<open>move()\<close> on a moving vehicle and
  \<^verbatim>\<open>stop()\<close> on a stopped one leave the whole object as it was; in particular the
  second of two consecutive \<^verbatim>\<open>move()\<close> calls (and of two \<^verbatim>\<open>stop()\<close> calls) changes
  nothing. The call returns normally: the result of \<open>move\<close> and \<open>stop\<close> has no error
  branch, their source having no \<^verbatim>\<open>raise\<close>.
\<close>

theorem redundant_move_and_stop_change_nothing:
  "(is_moving (base v) \<longrightarrow> post (move r v) = v) \<and>
   (\<not> is_moving (base v) \<longrightarrow> post (stop v) = v) \<and>
   post (move r' (post (move r v))) = post (move r v) \<and>
   post (stop (post (stop v))) = post (stop v)"
  by (cases v) (simp_all add: post_map_post vehicle_method_defs vehicle.defs Let_def)

theorem redundant_move_and_stop_change_nothing_witness:
  "is_moving (base (post (move 0 (new_vehicle Plane ''Jet'' 900 200)))) \<and>
   post (move 1 (post (move 0 (new_vehicle Plane ''Jet'' 900 200)))) =
     post (move 0 (new_vehicle Plane ''Jet'' 900 200)) \<and>
   \<not> is_moving (base (new_vehicle Car ''Toyota'' 180 5)) \<and>
   post (stop (new_vehicle Car ''Toyota'' 180 5)) = new_vehicle Car ''Toyota'' 180 5"
  using redundant_move_and_stop_change_nothing
          [of "post (move 0 (new_vehicle Plane ''Jet'' 900 200))" 1]
        redundant_move_and_stop_change_nothing [of "new_vehicle Car ''Toyota'' 180 5"]
  by (simp add: post_map_post vehicle_method_defs vehicle_init_defs Let_def)

subsection \<open>The speed invariant\<close>

lemma move_keeps_invariant:
  assumes "documented_starting_speed v \<le> max_speed (base v)" and "vehicle_invariant v"
  shows "vehicle_invariant (post (move r v)) \<and>
         documented_starting_speed (post (move r v)) = documented_starting_speed v \<and>
         max_speed (base (post (move r v))) = max_speed (base v)"
  using assms
  by (cases v)
     (auto simp add: vehicle_invariant_def post_map_post vehicle_method_defs vehicle.defs Let_def)

lemma stop_keeps_invariant:
  assumes "documented_starting_speed v \<le> max_speed (base v)" and "vehicle_invariant v"
  shows "vehicle_invariant (post (stop v)) \<and>
         documented_starting_speed (post (stop v)) = documented_starting_speed v \<and>
         max_speed (base (post (stop v))) = max_speed (base v)"
proof -
  have "0 \<le> documented_starting_speed v" by (cases v) simp_all
  with assms show ?thesis
    by (cases v)
       (auto simp add: vehicle_invariant_def post_map_post vehicle_method_defs vehicle.defs Let_def)
qed

lemma accelerate_keeps_invariant:
  assumes "vehicle_invariant v"
  shows "vehicle_invariant (post (call_accelerate d v)) \<and>
         documented_starting_speed (post (call_accelerate d v)) = documented_starting_speed v \<and>
         max_speed (base (post (call_accelerate d v))) = max_speed (base v)"
  using assms
  by (cases v)
     (auto simp add: vehicle_invariant_def post_map_post accelerate_def vehicle.defs Let_def)

lemma call_keeps_invariant:
  assumes "documented_starting_speed v \<le> max_speed (base v)" and "vehicle_invariant v"
  shows "vehicle_invariant (post (do_call c v)) \<and>
         documented_starting_speed (post (do_call c v)) = documented_starting_speed v \<and>
         max_speed (base (post (do_call c v))) = max_speed (base v)"
proof (cases c)
  case (Move r)
  with assms show ?thesis using move_keeps_invariant [of v r] by simp
next
  case Stop
  with assms show ?thesis using stop_keeps_invariant [of v] by simp
next
  case (Accelerate d)
  with assms show ?thesis using accelerate_keeps_invariant [of v d] by simp
qed

lemma run_calls_keeps_invariant:
  "documented_starting_speed v \<le> max_speed (base v) \<Longrightarrow> vehicle_invariant v \<Longrightarrow>
     vehicle_invariant (run_calls cs v)"
proof (induction cs arbitrary: v)
  case Nil
  then show ?case by simp
next
  case (Cons c cs)
  from Cons.prems have "vehicle_invariant (post (do_call c v))"
    and "documented_starting_speed (post (do_call c v)) \<le> max_speed (base (post (do_call c v)))"
    using call_keeps_invariant [of v c] by simp_all
  then have "vehicle_invariant (run_calls cs (post (do_call c v)))"
    by (simp add: Cons.IH)
  then show ?case by simp
qed

lemma new_vehicle_fields:
  "max_speed (base (new_vehicle cls n ms cap)) = ms"
  "current_speed (base (new_vehicle cls n ms cap)) = 0"
  "\<not> is_moving (base (new_vehicle cls n ms cap))"
  by (cases cls; simp add: vehicle_init_defs)+

lemma documented_starting_speed_nonneg: "0 \<le> documented_starting_speed v"
  by (cases v) simp_all

text \<open>
  Claim C2, as the code has it. A car built with \<^verbatim>\<open>max_speed=20\<close> satisfies the
  invariant after construction, and \<^verbatim>\<open>move()\<close> then sets its speed to 30: the
  invariant does not hold for every constructor argument.
\<close>

theorem move_exceeds_small_max_speed_counterexample:
  "vehicle_invariant (new_vehicle Car ''Kart'' 20 1) \<and>
   \<not> vehicle_invariant (post (move 0 (new_vehicle Car ''Kart'' 20 1)))"
  by (simp add: vehicle_invariant_def post_map_post vehicle_method_defs vehicle_init_defs Let_def)

text \<open>
  Claim C2, amended. For every vehicle variant constructed with a \<open>max_speed\<close> that is
  at least the starting speed of the variant (every default \<open>max_speed\<close> is), the
  invariant \<open>current_speed \<le> max_speed\<close> and \<open>current_speed = 0\<close> whenever the vehicle is
  not moving holds after construction and after every sequence of calls of
  \<^verbatim>\<open>move\<close>, \<^verbatim>\<open>stop\<close> and \<^verbatim>\<open>accelerate\<close>; and from any state of such a vehicle that
  satisfies the invariant, each of the three calls leads to a state that satisfies it.
\<close>

theorem invariant_when_max_speed_admits_start:
  "(documented_starting_speed (new_vehicle cls n ms cap) \<le> ms \<longrightarrow>
      vehicle_invariant (new_vehicle cls n ms cap) \<and>
      vehicle_invariant (run_calls cs (new_vehicle cls n ms cap))) \<and>
   (documented_starting_speed v \<le> max_speed (base v) \<and> vehicle_invariant v \<longrightarrow>
      vehicle_invariant (post (move r v)) \<and>
      vehicle_invariant (post (stop v)) \<and>
      vehicle_invariant (post (call_accelerate d v)))"
proof -
  have fresh: "vehicle_invariant (new_vehicle cls n ms cap)"
    if "documented_starting_speed (new_vehicle cls n ms cap) \<le> ms"
    using that documented_starting_speed_nonneg [of "new_vehicle cls n ms cap"]
    by (simp add: vehicle_invariant_def new_vehicle_fields)
  have run: "vehicle_invariant (run_calls cs (new_vehicle cls n ms cap))"
    if "documented_starting_speed (new_vehicle cls n ms cap) \<le> ms"
    using that fresh by (simp add: run_calls_keeps_invariant new_vehicle_fields)
  have step: "vehicle_invariant (post (move r v)) \<and> vehicle_invariant (post (stop v)) \<and>
      vehicle_invariant (post (call_accelerate d v))"
    if "documented_starting_speed v \<le> max_speed (base v)" and "vehicle_invariant v"
    using call_keeps_invariant [OF that, of "Move r"]
          call_keeps_invariant [OF that, of Stop]
          call_keeps_invariant [OF that, of "Accelerate d"]
    by simp
  from fresh run step show ?thesis by blast
qed

theorem invariant_when_max_speed_admits_start_witness:
  "documented_starting_speed (new_vehicle Bicycle ''BMX'' 40 2) \<le> 40 \<and>
   vehicle_invariant (new_vehicle Bicycle ''BMX'' 40 2) \<and>
   vehicle_invariant
     (run_calls [Move 0, Accelerate 100, Move 1, Stop, Accelerate 5]
        (new_vehicle Bicycle ''BMX'' 40 2)) \<and>
   documented_starting_speed (post (move 0 (new_vehicle Car ''Toyota'' 180 5)))
     \<le> max_speed (base (post (move 0 (new_vehicle Car ''Toyota'' 180 5)))) \<and>
   vehicle_invariant (post (move 0 (new_vehicle Car ''Toyota'' 180 5))) \<and>
   vehicle_invariant (post (move 1 (post (move 0 (new_vehicle Car ''Toyota'' 180 5))))) \<and>
   vehicle_invariant (post (stop (post (move 0 (new_vehicle Car ''Toyota'' 180 5))))) \<and>
   vehicle_invariant
     (post (call_accelerate 500 (post (move 0 (new_vehicle Car ''Toyota'' 180 5)))))"
  using invariant_when_max_speed_admits_start
          [of Bicycle "''BMX''" 40 2 "[Move 0, Accelerate 100, Move 1, Stop, Accelerate 5]"
              "post (move 0 (new_vehicle Car ''Toyota'' 180 5))" 1 500]
  by (simp add: vehicle_invariant_def post_map_post vehicle_method_defs vehicle_init_defs Let_def)

section \<open>Properties of the electronic devices\<close>

lemmas phone_init_defs =
  Smartphone_init_def Electronics_init_def electronics.defs smartphone.defs Let_def

lemmas phone_method_defs =
  unlock_screen_def lock_screen_def add_contact_def install_app_def take_photo_def
  make_call_def check_battery_def charge_battery_def get_contacts_def get_installed_apps_def
  power_on_def power_off_def

subsection \<open>The battery level\<close>

lemma battery_level_at_most_100:
  assumes "battery_level p \<le> 100" and "phone_invoke m p = Inr p'"
  shows "battery_level p' \<le> 100"
  using assms
  by (cases m) (auto simp add: phone_method_defs Let_def split: if_splits option.splits)

lemma battery_level_at_least_0:
  assumes "0 \<le> battery_level p" and "phone_invoke m p = Inr p'"
    and "\<And>a. m \<noteq> Install_app a" and "\<And>k. m = Charge_battery k \<Longrightarrow> 0 \<le> k"
  shows "0 \<le> battery_level p'"
  using assms
  by (cases m) (auto simp add: phone_method_defs Let_def split: if_splits option.splits)

text \<open>
  Claim C1, at an input where the code leaves the range. The claim is that the battery
  level stays between 0 and 100 under every sequence of public operations. The upper
  bound holds (\<open>battery_level_at_most_100\<close>), and so does the lower bound as long as no
  app is installed and no negative amount is charged (\<open>battery_level_at_least_0\<close>):
  \<^verbatim>\<open>take_photo\<close> and \<^verbatim>\<open>make_call\<close> check the level before they draw on it.
  \<^verbatim>\<open>install_app\<close> draws 2 without such a check. On the smartphone of the
  demonstration, unlocked, 32 photos bring the level from 100 to 4, and three
  installations then bring it to \<open>-2\<close>.
\<close>

theorem install_app_takes_battery_level_below_zero:
  "map_sum id battery_level
     (phone_run
        (Unlock_screen ''1234'' # replicate 32 (Take_photo ''20250101_120000'') @
         [Install_app ''WhatsApp'', Install_app ''Instagram'', Install_app ''Maps''])
        demo_phone) = Inr (- 2)"
  by (simp add: demo_phone_def phone_init_defs unlock_screen_def take_photo_def install_app_def
        eval_nat_numeral)

subsection \<open>Unlocking\<close>

text \<open>
  Claim C3, as the code has it. On a smartphone that is already unlocked,
  \<^verbatim>\<open>unlock_screen\<close> returns \<^verbatim>\<open>True\<close> and leaves the screen unlocked whatever the
  passcode: here with \<^verbatim>\<open>"0000"\<close>, after the demonstration's smartphone was unlocked.
\<close>

theorem unlock_screen_when_unlocked_counterexample:
  "ret (unlock_screen ''0000'' (post (unlock_screen ''1234'' demo_phone))) \<and>
   \<not> screen_locked (post (unlock_screen ''0000'' (post (unlock_screen ''1234'' demo_phone)))) \<and>
   ''0000'' \<noteq> ''1234''"
  by (simp add: demo_phone_def phone_init_defs unlock_screen_def)

text \<open>
  Claim C3, amended. For every smartphone whose screen is locked and every passcode
  \<open>p\<close>, \<^verbatim>\<open>unlock_screen(p)\<close> succeeds (returns \<^verbatim>\<open>True\<close> and leaves the screen unlocked)
  if and only if \<open>p\<close> is \<^verbatim>\<open>"1234"\<close>, and with any other passcode it returns \<^verbatim>\<open>False\<close>
  and changes nothing; for every smartphone whose screen is already unlocked it returns
  \<^verbatim>\<open>True\<close> and changes nothing, whatever \<open>p\<close> is.
\<close>

theorem unlock_screen_checks_passcode_when_locked:
  "(screen_locked s \<longrightarrow>
      ((ret (unlock_screen p s) \<and> \<not> screen_locked (post (unlock_screen p s)))
        \<longleftrightarrow> p = ''1234'')) \<and>
   (screen_locked s \<and> p \<noteq> ''1234'' \<longrightarrow>
      \<not> ret (unlock_screen p s) \<and> post (unlock_screen p s) = s) \<and>
   (\<not> screen_locked s \<longrightarrow> ret (unlock_screen p s) \<and> post (unlock_screen p s) = s)"
  by (simp add: unlock_screen_def)

theorem unlock_screen_checks_passcode_when_locked_witness:
  "screen_locked demo_phone \<and>
   ret (unlock_screen ''1234'' demo_phone) \<and>
   \<not> screen_locked (post (unlock_screen ''1234'' demo_phone)) \<and>
   \<not> ret (unlock_screen ''4321'' demo_phone) \<and>
   post (unlock_screen ''4321'' demo_phone) = demo_phone \<and>
   \<not> screen_locked (post (unlock_screen ''1234'' demo_phone)) \<and>
   post (unlock_screen ''4321'' (post (unlock_screen ''1234'' demo_phone))) =
     post (unlock_screen ''1234'' demo_phone)"
  using unlock_screen_checks_passcode_when_locked [of demo_phone "''1234''"]
        unlock_screen_checks_passcode_when_locked [of demo_phone "''4321''"]
        unlock_screen_checks_passcode_when_locked
          [of "post (unlock_screen ''1234'' demo_phone)" "''4321''"]
  by (simp add: demo_phone_def phone_init_defs unlock_screen_def)

subsection \<open>Calls on a locked smartphone\<close>

text \<open>
  Claim C4. On every smartphone whose screen is locked, \<^verbatim>\<open>add_contact\<close>,
  \<^verbatim>\<open>install_app\<close> and \<^verbatim>\<open>make_call\<close> return \<^verbatim>\<open>False\<close>, \<^verbatim>\<open>take_photo\<close> returns
  \<^verbatim>\<open>None\<close>, \<^verbatim>\<open>get_contacts\<close> and \<^verbatim>\<open>get_installed_apps\<close> return the empty list, and
  each of them leaves the whole object as it was.
\<close>

theorem locked_calls_fail_softly:
  "screen_locked s \<Longrightarrow>
     ret (add_contact n ph s) = False \<and> post (add_contact n ph s) = s \<and>
     ret (install_app a s) = False \<and> post (install_app a s) = s \<and>
     ret (take_photo stamp s) = None \<and> post (take_photo stamp s) = s \<and>
     ret (make_call n s) = False \<and> post (make_call n s) = s \<and>
     ret (get_contacts s) = [] \<and> post (get_contacts s) = s \<and>
     ret (get_installed_apps s) = [] \<and> post (get_installed_apps s) = s"
  by (simp add: add_contact_def install_app_def take_photo_def make_call_def get_contacts_def
        get_installed_apps_def)

theorem locked_calls_fail_softly_witness:
  "screen_locked demo_phone \<and>
   ret (add_contact ''Alice Smith'' ''+254712345678'' demo_phone) = False \<and>
   post (add_contact ''Alice Smith'' ''+254712345678'' demo_phone) = demo_phone \<and>
   ret (install_app ''WhatsApp'' demo_phone) = False \<and>
   post (install_app ''WhatsApp'' demo_phone) = demo_phone \<and>
   ret (take_photo ''20250101_120000'' demo_phone) = None \<and>
   post (take_photo ''20250101_120000'' demo_phone) = demo_phone \<and>
   ret (make_call ''Alice Smith'' demo_phone) = False \<and>
   post (make_call ''Alice Smith'' demo_phone) = demo_phone \<and>
   ret (get_contacts demo_phone) = [] \<and> post (get_contacts demo_phone) = demo_phone \<and>
   ret (get_installed_apps demo_phone) = [] \<and>
   post (get_installed_apps demo_phone) = demo_phone"
proof -
  have locked: "screen_locked demo_phone"
    by (simp add: demo_phone_def phone_init_defs)
  show ?thesis
    using locked
      locked_calls_fail_softly
        [OF locked, of "''Alice Smith''" "''+254712345678''" "''WhatsApp''" "''20250101_120000''"]
    by simp
qed

subsection \<open>Taking a photo\<close>

text \<open>
  Claim C9. On every unlocked smartphone: when the battery level is above 5,
  \<^verbatim>\<open>take_photo()\<close> returns a file name that starts with \<^verbatim>\<open>HD\<close> if the camera has 12
  megapixels or more and with \<^verbatim>\<open>Standard\<close> otherwise, and the battery level drops by
  exactly 3 while nothing else changes; when the level is 5 or less, it returns
  \<^verbatim>\<open>None\<close> and changes nothing.
\<close>

theorem take_photo_labels_and_draws_three:
  "\<not> screen_locked s \<Longrightarrow>
     (battery_level s > 5 \<and> camera_mp s \<ge> 12 \<longrightarrow>
        ret (take_photo stamp s) = Some (''HD'' @ ''_photo_'' @ stamp @ ''.jpg'')) \<and>
     (battery_level s > 5 \<and> camera_mp s < 12 \<longrightarrow>
        ret (take_photo stamp s) = Some (''Standard'' @ ''_photo_'' @ stamp @ ''.jpg'')) \<and>
     (battery_level s > 5 \<longrightarrow>
        ret (take_photo stamp s) \<noteq> None \<and> ret (take_photo stamp s) \<noteq> Some [] \<and>
        battery_level (post (take_photo stamp s)) = battery_level s - 3 \<and>
        post (take_photo stamp s) = s\<lparr>battery_level := battery_level s - 3\<rparr>) \<and>
     (battery_level s \<le> 5 \<longrightarrow>
        ret (take_photo stamp s) = None \<and> post (take_photo stamp s) = s)"
  by (simp add: take_photo_def Let_def)

theorem take_photo_labels_and_draws_three_witness:
  "\<not> screen_locked (post (unlock_screen ''1234'' demo_phone)) \<and>
   battery_level (post (unlock_screen ''1234'' demo_phone)) = 100 \<and>
   camera_mp (post (unlock_screen ''1234'' demo_phone)) = 48 \<and>
   ret (take_photo ''20250101_120000'' (post (unlock_screen ''1234'' demo_phone))) =
     Some ''HD_photo_20250101_120000.jpg'' \<and>
   battery_level (post (take_photo ''20250101_120000'' (post (unlock_screen ''1234'' demo_phone))))
     = 97 \<and>
   ret (take_photo ''20250101_120000''
          ((post (unlock_screen ''1234'' demo_phone))\<lparr>battery_level := 5\<rparr>)) = None \<and>
   ret (take_photo ''20250101_120000''
          ((post (unlock_screen ''1234'' demo_phone))\<lparr>camera_mp := 8\<rparr>)) =
     Some ''Standard_photo_20250101_120000.jpg''"
  using take_photo_labels_and_draws_three
          [of "post (unlock_screen ''1234'' demo_phone)" "''20250101_120000''"]
        take_photo_labels_and_draws_three
          [of "(post (unlock_screen ''1234'' demo_phone))\<lparr>battery_level := 5\<rparr>"
              "''20250101_120000''"]
        take_photo_labels_and_draws_three
          [of "(post (unlock_screen ''1234'' demo_phone))\<lparr>camera_mp := 8\<rparr>"
              "''20250101_120000''"]
  by (simp add: demo_phone_def phone_init_defs unlock_screen_def take_photo_def)

subsection \<open>Installing an app on a small smartphone\<close>

text \<open>
  Claim C10, as the code has it. \<^verbatim>\<open>install_app\<close> looks for the app among the installed
  ones before it looks at the storage: on a fresh unlocked smartphone with 8 GB, the
  preinstalled \<^verbatim>\<open>"Phone"\<close> is refused as already installed, not for want of storage.
\<close>

theorem install_app_preinstalled_counterexample:
  "(8::int) \<le> 15 \<and>
   out (install_app ''Phone''
          (fresh_unlocked_phone ''TechPro'' ''Mini'' 99 ''Android 14'' 8 12 3000 2
             ''SN123456'' ''2025-01-01'' 0)) =
     [Print ''{} is already installed'' [Str ''Phone'']] \<and>
   out (install_app ''Phone''
          (fresh_unlocked_phone ''TechPro'' ''Mini'' 99 ''Android 14'' 8 12 3000 2
             ''SN123456'' ''2025-01-01'' 0)) \<noteq>
     [Print ''Not enough storage space!'' []]"
  by (simp add: fresh_unlocked_phone_def phone_init_defs unlock_screen_def install_app_def)

text \<open>
  Claim C10, amended. Every freshly constructed smartphone has exactly the three apps
  \<^verbatim>\<open>"Phone"\<close>, \<^verbatim>\<open>"Messages"\<close> and \<^verbatim>\<open>"Settings"\<close>. On a fresh unlocked smartphone
  constructed with \<open>storage_gb \<le> 15\<close>, \<^verbatim>\<open>install_app\<close> returns \<^verbatim>\<open>False\<close> and changes
  nothing for every app name; it reports the lack of storage for every name other than
  the three preinstalled ones, and for those three that the app is already installed.
\<close>

theorem install_app_fails_on_small_fresh_phone:
  "apps_installed (snd (post (Smartphone_init b m pr os' sg mp mah w serial today count))) =
     [''Phone'', ''Messages'', ''Settings''] \<and>
   (sg \<le> 15 \<longrightarrow>
      ret (install_app a (fresh_unlocked_phone b m pr os' sg mp mah w serial today count)) = False \<and>
      post (install_app a (fresh_unlocked_phone b m pr os' sg mp mah w serial today count)) =
        fresh_unlocked_phone b m pr os' sg mp mah w serial today count \<and>
      (a \<notin> {''Phone'', ''Messages'', ''Settings''} \<longrightarrow>
         out (install_app a (fresh_unlocked_phone b m pr os' sg mp mah w serial today count)) =
           [Print ''Not enough storage space!'' []]) \<and>
      (a \<in> {''Phone'', ''Messages'', ''Settings''} \<longrightarrow>
         out (install_app a (fresh_unlocked_phone b m pr os' sg mp mah w serial today count)) =
           [Print ''{} is already installed'' [Str a]]))"
  by (auto simp add: fresh_unlocked_phone_def phone_init_defs unlock_screen_def install_app_def)

theorem install_app_fails_on_small_fresh_phone_witness:
  "(15::int) \<le> 15 \<and>
   ''WhatsApp'' \<notin> {''Phone'', ''Messages'', ''Settings''} \<and>
   ret (install_app ''WhatsApp''
          (fresh_unlocked_phone ''TechPro'' ''Mini'' 99 ''Android 14'' 15 12 3000 2
             ''SN123456'' ''2025-01-01'' 0)) = False \<and>
   out (install_app ''WhatsApp''
          (fresh_unlocked_phone ''TechPro'' ''Mini'' 99 ''Android 14'' 15 12 3000 2
             ''SN123456'' ''2025-01-01'' 0)) = [Print ''Not enough storage space!'' []] \<and>
   ''Messages'' \<in> {''Phone'', ''Messages'', ''Settings''} \<and>
   out (install_app ''Messages''
          (fresh_unlocked_phone ''TechPro'' ''Mini'' 99 ''Android 14'' 15 12 3000 2
             ''SN123456'' ''2025-01-01'' 0)) = [Print ''{} is already installed'' [Str ''Messages'']]"
  using install_app_fails_on_small_fresh_phone
          [of "''TechPro''" "''Mini''" 99 "''Android 14''" 15 12 3000 2 "''SN123456''"
              "''2025-01-01''" 0 "''WhatsApp''"]
        install_app_fails_on_small_fresh_phone
          [of "''TechPro''" "''Mini''" 99 "''Android 14''" 15 12 3000 2 "''SN123456''"
              "''2025-01-01''" 0 "''Messages''"]
  by (simp add: fresh_unlocked_phone_def phone_init_defs unlock_screen_def install_app_def)

subsection \<open>The device counter\<close>

text \<open>
  Claim C8. Constructing an \<^verbatim>\<open>Electronics\<close>, a \<^verbatim>\<open>Smartphone\<close> or a \<^verbatim>\<open>Laptop\<close>
  increases \<^verbatim>\<open>Electronics.total_devices\<close> by exactly 1, and no method call of any of
  the three classes decreases it (a call leaves it as it is). A construction always
  completes.
\<close>

theorem total_devices_counts_constructions:
  "fst (post (Electronics_init cls b m pr w serial today count)) = count + 1 \<and>
   fst (post (Smartphone_init b m pr os' sg mp mah w serial today count)) = count + 1 \<and>
   fst (post (Laptop_init b m pr os' ram sg scr w serial today count)) = count + 1 \<and>
   (is_construction st \<longrightarrow>
      (\<exists>s'. exec st s = Inr s' \<and> total_devices s' = total_devices s + 1)) \<and>
   (\<forall>s'. exec st s = Inr s' \<longrightarrow>
      total_devices s \<le> total_devices s' \<and>
      total_devices s' = total_devices s + (if is_construction st then 1 else 0))"
  by (cases st) (auto simp add: phone_init_defs Laptop_init_def laptop.defs split: sum.splits)

theorem total_devices_counts_constructions_witness:
  "is_construction
     (New_Smartphone ''TechPro'' ''X15 Pro'' (89999 / 100) ''Android 14'' 256 48 4500 2
        ''SN123456'' ''2025-01-01'') \<and>
   map_sum id total_devices
     (exec (New_Smartphone ''TechPro'' ''X15 Pro'' (89999 / 100) ''Android 14'' 256 48 4500 2
              ''SN123456'' ''2025-01-01'')
        \<lparr>total_devices = 0, objects = []\<rparr>) = Inr 1 \<and>
   \<not> is_construction (Call 0 (Unlock_screen ''1234'')) \<and>
   map_sum id total_devices
     (exec (Call 0 (Unlock_screen ''1234''))
        \<lparr>total_devices = 1, objects = [A_smartphone demo_phone]\<rparr>) = Inr 1"
  using total_devices_counts_constructions
          [where st = "New_Smartphone ''TechPro'' ''X15 Pro'' (89999 / 100) ''Android 14'' 256 48
                         4500 2 ''SN123456'' ''2025-01-01''"
             and s = "\<lparr>total_devices = 0, objects = []\<rparr>"]
        total_devices_counts_constructions
          [where st = "Call 0 (Unlock_screen ''1234'')"
             and s = "\<lparr>total_devices = 1, objects = [A_smartphone demo_phone]\<rparr>"]
  by (simp add: demo_phone_def phone_init_defs unlock_screen_def)

end
